theory Spec2Isabelle
  imports
    Complex_Main
    "HOL-Library.Char_ord"
    "HOL-Library.List_Lexorder"
    "HOL-Library.Option_ord"
begin

section \<open>Exceptions\<close>

text \<open>
  The exceptions that the modelled part of \<^verbatim>\<open>app.py\<close> can raise. A function that may
  raise returns \<open>error + 'a\<close>, with \<open>Inl\<close> for the exception.
\<close>

datatype error = ValueError | OverflowError

section \<open>The calendar of Python's \<^verbatim>\<open>datetime.date\<close>\<close>

text \<open>
  \<^verbatim>\<open>app.py\<close> computes with \<^verbatim>\<open>datetime.date\<close> and \<^verbatim>\<open>timedelta\<close>. The definitions below
  follow the algorithms of CPython's \<^verbatim>\<open>datetime\<close> module (\<^verbatim>\<open>_is_leap\<close>,
  \<^verbatim>\<open>_days_before_year\<close>, \<^verbatim>\<open>_days_in_month\<close>, \<^verbatim>\<open>_days_before_month\<close>, \<^verbatim>\<open>_ymd2ord\<close>,
  \<^verbatim>\<open>_ord2ymd\<close>), with Python's unbounded integers as \<open>int\<close>; Python's \<^verbatim>\<open>divmod\<close> and
  \<^verbatim>\<open>//\<close> round towards minus infinity, as \<open>div\<close> and \<open>mod\<close> on \<open>int\<close> do.
\<close>

record date =
  year :: int
  month :: int
  day :: int

definition MINYEAR :: int where "MINYEAR = 1"
definition MAXYEAR :: int where "MAXYEAR = 9999"
definition MAXORDINAL :: int where "MAXORDINAL = 3652059"

definition is_leap :: "int \<Rightarrow> bool" where
  "is_leap y = (y mod 4 = 0 \<and> (y mod 100 \<noteq> 0 \<or> y mod 400 = 0))"

definition days_before_year :: "int \<Rightarrow> int" where
  "days_before_year y = (let p = y - 1 in p * 365 + p div 4 - p div 100 + p div 400)"

definition DAYS_IN_MONTH :: "int \<Rightarrow> int" where
  "DAYS_IN_MONTH m =
     (if m = 2 then 28 else if m = 4 \<or> m = 6 \<or> m = 9 \<or> m = 11 then 30 else 31)"

definition DAYS_BEFORE_MONTH :: "int \<Rightarrow> int" where
  "DAYS_BEFORE_MONTH m =
     (if m = 1 then 0 else if m = 2 then 31 else if m = 3 then 59 else if m = 4 then 90
      else if m = 5 then 120 else if m = 6 then 151 else if m = 7 then 181
      else if m = 8 then 212 else if m = 9 then 243 else if m = 10 then 273
      else if m = 11 then 304 else 334)"

definition days_in_month :: "int \<Rightarrow> int \<Rightarrow> int" where
  "days_in_month y m = (if m = 2 \<and> is_leap y then 29 else DAYS_IN_MONTH m)"

definition days_before_month :: "int \<Rightarrow> int \<Rightarrow> int" where
  "days_before_month y m = DAYS_BEFORE_MONTH m + (if m > 2 \<and> is_leap y then 1 else 0)"

definition ymd2ord :: "int \<Rightarrow> int \<Rightarrow> int \<Rightarrow> int" where
  "ymd2ord y m d = days_before_year y + days_before_month y m + d"

text \<open>
  \<^verbatim>\<open>_ord2ymd\<close>: the 400-, 100-, 4- and 1-year cycles are peeled off the ordinal, the month
  is estimated as \<^verbatim>\<open>(n + 50) >> 5\<close> and corrected downwards when the estimate is too large.
\<close>

definition ord2ymd :: "int \<Rightarrow> date" where
  "ord2ymd n0 =
     (let n = n0 - 1;
          n400 = n div 146097; n = n mod 146097;
          n100 = n div 36524; n = n mod 36524;
          n4 = n div 1461; n = n mod 1461;
          n1 = n div 365; n = n mod 365;
          y = n400 * 400 + 1 + n100 * 100 + n4 * 4 + n1
      in if n1 = 4 \<or> n100 = 4 then \<lparr>year = y - 1, month = 12, day = 31\<rparr>
         else
           let leapyear = (n1 = 3 \<and> (n4 \<noteq> 24 \<or> n100 = 3));
               m = (n + 50) div 32;
               preceding = DAYS_BEFORE_MONTH m + (if m > 2 \<and> leapyear then 1 else 0)
           in if preceding > n
              then let m' = m - 1;
                       preceding' = preceding
                                    - (DAYS_IN_MONTH m' + (if m' = 2 \<and> leapyear then 1 else 0))
                   in \<lparr>year = y, month = m', day = n - preceding' + 1\<rparr>
              else \<lparr>year = y, month = m, day = n - preceding + 1\<rparr>)"

text \<open>
  The values of type \<^verbatim>\<open>date\<close> that Python can construct: the constructor checks the year
  against \<^verbatim>\<open>MINYEAR..MAXYEAR\<close>, the month against 1..12 and the day against the length
  of the month, and raises \<^verbatim>\<open>ValueError\<close> otherwise.
\<close>

definition valid_date :: "date \<Rightarrow> bool" where
  "valid_date d \<longleftrightarrow>
     MINYEAR \<le> year d \<and> year d \<le> MAXYEAR \<and> 1 \<le> month d \<and> month d \<le> 12 \<and>
     1 \<le> day d \<and> day d \<le> days_in_month (year d) (month d)"

definition mk_date :: "int \<Rightarrow> int \<Rightarrow> int \<Rightarrow> error + date" where
  "mk_date y m d =
     (let r = \<lparr>year = y, month = m, day = d\<rparr>
      in if valid_date r then Inr r else Inl ValueError)"

definition toordinal :: "date \<Rightarrow> int" where
  "toordinal d = ymd2ord (year d) (month d) (day d)"

definition fromordinal :: "int \<Rightarrow> date" where
  "fromordinal n = ord2ymd n"

text \<open>\<^verbatim>\<open>date.weekday()\<close>: Monday is 0, Sunday is 6.\<close>

definition weekday :: "date \<Rightarrow> int" where
  "weekday d = (toordinal d + 6) mod 7"

text \<open>
  \<^verbatim>\<open>date + timedelta(days=k)\<close> and \<^verbatim>\<open>date - timedelta(days=k)\<close>: the result is taken from
  the shifted ordinal, and \<^verbatim>\<open>OverflowError\<close> is raised when it leaves \<^verbatim>\<open>1..MAXORDINAL\<close>.
\<close>

definition date_add_days :: "date \<Rightarrow> int \<Rightarrow> error + date" where
  "date_add_days d k =
     (let ord = toordinal d + k
      in if 0 < ord \<and> ord \<le> MAXORDINAL then Inr (fromordinal ord) else Inl OverflowError)"

definition date_sub_days :: "date \<Rightarrow> int \<Rightarrow> error + date" where
  "date_sub_days d k = date_add_days d (- k)"



definition date_lt :: "date \<Rightarrow> date \<Rightarrow> bool" where
  "date_lt a b \<longleftrightarrow>
     year a < year b \<or> (year a = year b \<and> (month a < month b \<or>
       (month a = month b \<and> day a < day b)))"

section \<open>Parsing dates: \<^verbatim>\<open>parse_date\<close>\<close>

text \<open>
  \<^verbatim>\<open>parse_date(s)\<close> is \<^verbatim>\<open>datetime.strptime(s, "%Y-%m-%d").date()\<close>. \<^verbatim>\<open>strptime\<close> turns the
  format into a regular expression, matches it at the start of the string, raises
  \<^verbatim>\<open>ValueError\<close> when it does not match or when characters remain after the match, and
  then builds the date, which raises \<^verbatim>\<open>ValueError\<close> for a day that the month does not
  have. The directives are
  \<^verbatim>\<open>%Y = \d\d\d\d\<close>, \<^verbatim>\<open>%m = 1[0-2]|0[1-9]|[1-9]\<close> and
  \<^verbatim>\<open>%d = 3[0-1]|[1-2]\d|0[1-9]|[1-9]| [1-9]\<close>. In the formats used here the first
  alternative of a directive that matches is the only one with which the rest of the
  format can match, so the matchers below take the first and do not backtrack.
  Strings are byte strings here: only the ASCII digits are digits.
\<close>

definition digit_of :: "char \<Rightarrow> int option" where
  "digit_of c = map_of
     [(CHR ''0'', 0), (CHR ''1'', 1), (CHR ''2'', 2), (CHR ''3'', 3), (CHR ''4'', 4),
      (CHR ''5'', 5), (CHR ''6'', 6), (CHR ''7'', 7), (CHR ''8'', 8), (CHR ''9'', 9)] c"

definition in_range :: "char \<Rightarrow> int \<Rightarrow> int \<Rightarrow> bool" where
  "in_range c lo hi = (case digit_of c of None \<Rightarrow> False | Some v \<Rightarrow> lo \<le> v \<and> v \<le> hi)"

definition dval :: "char \<Rightarrow> int" where
  "dval c = (case digit_of c of None \<Rightarrow> 0 | Some v \<Rightarrow> v)"

fun match_Y :: "string \<Rightarrow> (int \<times> string) option" where
  "match_Y (a # b # c # d # r) =
     (if in_range a 0 9 \<and> in_range b 0 9 \<and> in_range c 0 9 \<and> in_range d 0 9
      then Some (dval a * 1000 + dval b * 100 + dval c * 10 + dval d, r) else None)"
| "match_Y _ = None"

fun match_m :: "string \<Rightarrow> (int \<times> string) option" where
  "match_m (a # b # r) =
     (if a = CHR ''1'' \<and> in_range b 0 2 then Some (10 + dval b, r)
      else if a = CHR ''0'' \<and> in_range b 1 9 then Some (dval b, r)
      else if in_range a 1 9 then Some (dval a, b # r)
      else None)"
| "match_m [a] = (if in_range a 1 9 then Some (dval a, []) else None)"
| "match_m [] = None"

fun match_d :: "string \<Rightarrow> (int \<times> string) option" where
  "match_d (a # b # r) =
     (if a = CHR ''3'' \<and> in_range b 0 1 then Some (30 + dval b, r)
      else if in_range a 1 2 \<and> in_range b 0 9 then Some (dval a * 10 + dval b, r)
      else if a = CHR ''0'' \<and> in_range b 1 9 then Some (dval b, r)
      else if in_range a 1 9 then Some (dval a, b # r)
      else if a = CHR '' '' \<and> in_range b 1 9 then Some (dval b, r)
      else None)"
| "match_d [a] = (if in_range a 1 9 then Some (dval a, []) else None)"
| "match_d [] = None"

fun match_lit :: "char \<Rightarrow> string \<Rightarrow> string option" where
  "match_lit c (a # r) = (if a = c then Some r else None)"
| "match_lit c [] = None"

text \<open>The prefix \<^verbatim>\<open>%Y-%m-%d\<close> of a format: the three numbers and the rest of the string.\<close>

definition match_ymd :: "string \<Rightarrow> ((int \<times> int \<times> int) \<times> string) option" where
  "match_ymd s =
     (case match_Y s of None \<Rightarrow> None | Some (y, r1) \<Rightarrow>
     (case match_lit (CHR ''-'') r1 of None \<Rightarrow> None | Some r2 \<Rightarrow>
     (case match_m r2 of None \<Rightarrow> None | Some (m, r3) \<Rightarrow>
     (case match_lit (CHR ''-'') r3 of None \<Rightarrow> None | Some r4 \<Rightarrow>
     (case match_d r4 of None \<Rightarrow> None | Some (d, r5) \<Rightarrow> Some ((y, m, d), r5))))))"

definition parse_date :: "string \<Rightarrow> error + date" where
  "parse_date s =
     (case match_ymd s of
        None \<Rightarrow> Inl ValueError
      | Some ((y, m, d), r) \<Rightarrow> if r \<noteq> [] then Inl ValueError else mk_date y m d)"

section \<open>The date-range resolver: \<^verbatim>\<open>start_end_from_range\<close>\<close>

text \<open>
  \<^verbatim>\<open>date.today()\<close> is the parameter \<open>today\<close>. The optional arguments \<^verbatim>\<open>start_str\<close> and
  \<^verbatim>\<open>end_str\<close> are \<open>string option\<close>, \<open>None\<close> for Python's \<^verbatim>\<open>None\<close>; in
  \<^verbatim>\<open>start_str and end_str\<close> a value is true when it is a non-empty string. The result
  \<^verbatim>\<open>(None, None)\<close> stands for an unbounded range.
\<close>

definition truthy :: "string option \<Rightarrow> bool" where
  "truthy v = (case v of None \<Rightarrow> False | Some s \<Rightarrow> s \<noteq> [])"

definition start_end_from_range ::
  "date \<Rightarrow> string \<Rightarrow> string option \<Rightarrow> string option \<Rightarrow> error + (date option \<times> date option)"
where
  "start_end_from_range today range_key start_str end_str =
     (if range_key = ''today'' then Inr (Some today, Some today)
      else if range_key = ''week'' then
        (case date_sub_days today (weekday today) of
           Inl e \<Rightarrow> Inl e
         | Inr start \<Rightarrow>
             (case date_add_days start 6 of
                Inl e \<Rightarrow> Inl e
              | Inr end \<Rightarrow> Inr (Some start, Some end)))
      else if range_key = ''month'' then
        (case mk_date (year today) (month today) 1 of
           Inl e \<Rightarrow> Inl e
         | Inr start \<Rightarrow>
             (case (if month start = 12 then mk_date (year start + 1) 1 1
                    else mk_date (year start) (month start + 1) 1) of
                Inl e \<Rightarrow> Inl e
              | Inr next_start \<Rightarrow>
                  (case date_sub_days next_start 1 of
                     Inl e \<Rightarrow> Inl e
                   | Inr end \<Rightarrow> Inr (Some start, Some end))))
      else if range_key = ''custom'' \<and> truthy start_str \<and> truthy end_str then
        (case parse_date (the start_str) of
           Inl e \<Rightarrow> Inl e
         | Inr s \<Rightarrow>
             (case parse_date (the end_str) of
                Inl e \<Rightarrow> Inl e
              | Inr e \<Rightarrow> Inr (Some s, Some e)))
      else Inr (None, None))"




section \<open>Text and numbers\<close>

text \<open>
  Python's \<^verbatim>\<open>str.strip()\<close> and the number parsers skip white space at both ends. Strings
  are byte strings here, so the white space is the ASCII part of what \<^verbatim>\<open>str.isspace\<close>
  accepts: tab, line feed, vertical tab, form feed, carriage return, the separators
  \<^verbatim>\<open>0x1c..0x1f\<close> and the space.
\<close>

definition is_space :: "char \<Rightarrow> bool" where
  "is_space c \<longleftrightarrow>
     c \<in> set [CHR 0x09, CHR 0x0A, CHR 0x0B, CHR 0x0C, CHR 0x0D,
               CHR 0x1C, CHR 0x1D, CHR 0x1E, CHR 0x1F, CHR 0x20]"

definition strip :: "string \<Rightarrow> string" where
  "strip s = rev (dropWhile is_space (rev (dropWhile is_space s)))"

definition is_digit :: "char \<Rightarrow> bool" where
  "is_digit c \<longleftrightarrow> digit_of c \<noteq> None"









text \<open>
  \<^verbatim>\<open>round(x, 2)\<close> on a float: the multiple of 0.01 nearest to \<open>x\<close>, and of two equally
  near ones the one whose last digit is even.
\<close>

definition round_half_even :: "rat \<Rightarrow> int" where
  "round_half_even q =
     (let f = \<lfloor>q\<rfloor>; r = q - of_int f
      in if r < 1 / 2 then f else if 1 / 2 < r then f + 1
         else if even f then f else f + 1)"

definition py_round2 :: "rat \<Rightarrow> rat" where
  "py_round2 x = of_int (round_half_even (x * 100)) / 100"

text \<open>Decimal output: \<^verbatim>\<open>str(n)\<close> and the zero-padded fields of the date formats.\<close>

definition digit_char :: "int \<Rightarrow> char" where
  "digit_char n = ''0123456789'' ! nat n"

function show_nat :: "nat \<Rightarrow> string" where
  "show_nat n = (if n < 10 then [digit_char (int n)]
                 else show_nat (n div 10) @ [digit_char (int (n mod 10))])"
  by pat_completeness auto
termination
  by (relation "measure id") auto

definition show_int :: "int \<Rightarrow> string" where
  "show_int i = (if i < 0 then CHR ''-'' # show_nat (nat (- i)) else show_nat (nat i))"

definition pad2 :: "int \<Rightarrow> string" where
  "pad2 n = [digit_char (n div 10 mod 10), digit_char (n mod 10)]"

definition pad4 :: "int \<Rightarrow> string" where
  "pad4 n = [digit_char (n div 1000 mod 10), digit_char (n div 100 mod 10),
             digit_char (n div 10 mod 10), digit_char (n mod 10)]"

text \<open>\<^verbatim>\<open>fmt_day(d)\<close> is \<^verbatim>\<open>d.strftime("%Y-%m-%d")\<close>, with the year padded to four digits.\<close>

definition fmt_day :: "date \<Rightarrow> string" where
  "fmt_day d = pad4 (year d) @ ''-'' @ pad2 (month d) @ ''-'' @ pad2 (day d)"


section \<open>Date-times: \<^verbatim>\<open>to_dt\<close>\<close>

text \<open>
  The \<^verbatim>\<open>datetime\<close> values of the sleep form have a date, an hour and a minute; their
  seconds and microseconds are always 0. \<^verbatim>\<open>to_dt\<close> strips the string and parses it with
  \<^verbatim>\<open>"%Y-%m-%dT%H:%M"\<close> when it contains a \<^verbatim>\<open>T\<close>, with \<^verbatim>\<open>"%Y-%m-%d %H:%M"\<close> otherwise.
  The directives are \<^verbatim>\<open>%H = 2[0-3]|[0-1]\d|\d\<close> and \<^verbatim>\<open>%M = [0-5]\d|\d\<close>; the space of
  the second format stands for one or more white-space characters, and the letter of the
  first is matched without regard to case.
\<close>

record datetime =
  dt_date :: date
  dt_hour :: int
  dt_minute :: int

fun match_H :: "string \<Rightarrow> (int \<times> string) option" where
  "match_H (a # b # r) =
     (if a = CHR ''2'' \<and> in_range b 0 3 then Some (20 + dval b, r)
      else if in_range a 0 1 \<and> in_range b 0 9 then Some (dval a * 10 + dval b, r)
      else if in_range a 0 9 then Some (dval a, b # r)
      else None)"
| "match_H [a] = (if in_range a 0 9 then Some (dval a, []) else None)"
| "match_H [] = None"

fun match_M :: "string \<Rightarrow> (int \<times> string) option" where
  "match_M (a # b # r) =
     (if in_range a 0 5 \<and> in_range b 0 9 then Some (dval a * 10 + dval b, r)
      else if in_range a 0 9 then Some (dval a, b # r)
      else None)"
| "match_M [a] = (if in_range a 0 9 then Some (dval a, []) else None)"
| "match_M [] = None"

definition match_T :: "string \<Rightarrow> string option" where
  "match_T s = (case s of [] \<Rightarrow> None
                | c # r \<Rightarrow> if c = CHR ''T'' \<or> c = CHR ''t'' then Some r else None)"

definition match_spaces :: "string \<Rightarrow> string option" where
  "match_spaces s = (case s of [] \<Rightarrow> None
                     | c # r \<Rightarrow> if is_space c then Some (dropWhile is_space r) else None)"

definition strptime_datetime :: "bool \<Rightarrow> string \<Rightarrow> error + datetime" where
  "strptime_datetime with_T s =
     (case match_ymd s of
        None \<Rightarrow> Inl ValueError
      | Some ((y, m, d), r1) \<Rightarrow>
     (case (if with_T then match_T r1 else match_spaces r1) of
        None \<Rightarrow> Inl ValueError
      | Some r2 \<Rightarrow>
     (case match_H r2 of
        None \<Rightarrow> Inl ValueError
      | Some (hh, r3) \<Rightarrow>
     (case match_lit (CHR '':'') r3 of
        None \<Rightarrow> Inl ValueError
      | Some r4 \<Rightarrow>
     (case match_M r4 of
        None \<Rightarrow> Inl ValueError
      | Some (mm, r5) \<Rightarrow>
          if r5 \<noteq> [] then Inl ValueError
          else (case mk_date y m d of
                  Inl e \<Rightarrow> Inl e
                | Inr dd \<Rightarrow> Inr \<lparr>dt_date = dd, dt_hour = hh, dt_minute = mm\<rparr>))))))"

definition to_dt :: "string \<Rightarrow> error + datetime" where
  "to_dt dt_str =
     (let s = strip dt_str
      in if CHR ''T'' \<in> set s then strptime_datetime True s else strptime_datetime False s)"

text \<open>Comparison, \<^verbatim>\<open>+ timedelta(days=k)\<close>, difference in seconds, and \<^verbatim>\<open>isoformat(sep=" ")\<close>.\<close>

definition dt_lt :: "datetime \<Rightarrow> datetime \<Rightarrow> bool" where
  "dt_lt a b \<longleftrightarrow>
     date_lt (dt_date a) (dt_date b) \<or>
     (dt_date a = dt_date b \<and>
        (dt_hour a < dt_hour b \<or> (dt_hour a = dt_hour b \<and> dt_minute a < dt_minute b)))"

definition dt_add_days :: "datetime \<Rightarrow> int \<Rightarrow> error + datetime" where
  "dt_add_days a k =
     (case date_add_days (dt_date a) k of
        Inl e \<Rightarrow> Inl e
      | Inr d \<Rightarrow> Inr (a\<lparr>dt_date := d\<rparr>))"

definition total_seconds :: "datetime \<Rightarrow> datetime \<Rightarrow> int" where
  "total_seconds e s =
     (toordinal (dt_date e) - toordinal (dt_date s)) * 86400
     + (dt_hour e * 3600 + dt_minute e * 60) - (dt_hour s * 3600 + dt_minute s * 60)"

definition isoformat_sp :: "datetime \<Rightarrow> string" where
  "isoformat_sp a =
     fmt_day (dt_date a) @ '' '' @ pad2 (dt_hour a) @ '':'' @ pad2 (dt_minute a) @ '':00''"

section \<open>The record store\<close>

text \<open>
  The tables of \<^verbatim>\<open>init_db\<close> that the modelled handlers use, each as the list of its rows.
  \<^verbatim>\<open>TEXT\<close> columns are strings, \<^verbatim>\<open>INTEGER\<close> columns are \<open>int\<close>, \<^verbatim>\<open>REAL\<close> columns are
  \<open>rat\<close>, and a column that may be \<^verbatim>\<open>NULL\<close> is an option. Each table has its
  \<^verbatim>\<open>AUTOINCREMENT\<close> counter: a new row gets an id one above the largest id the table has
  or ever had.
\<close>

record meal_row =
  m_id :: int
  m_user_id :: int
  m_date :: string
  m_meal_type :: string
  m_food :: string
  m_calories :: int
  m_created_at :: string

record fitness_row =
  f_id :: int
  f_user_id :: int
  f_date :: string
  f_activity_type :: string
  f_duration_min :: int
  f_calories_burned :: int
  f_created_at :: string

record sleep_row =
  s_id :: int
  s_user_id :: int
  s_sleep_start :: string
  s_sleep_end :: string
  s_duration_hours :: rat
  s_created_at :: string

record weight_row =
  w_id :: int
  w_user_id :: int
  w_date :: string
  w_weight_kg :: rat
  w_height_cm :: rat
  w_bmi :: rat
  w_created_at :: string

record goal_row =
  g_id :: int
  g_user_id :: int
  g_target_weight_kg :: "rat option"
  g_daily_calorie_intake_target :: "int option"
  g_daily_exercise_minutes_target :: "int option"
  g_updated_at :: string

record store =
  meal_logs :: "meal_row list"
  meal_seq :: int
  fitness_logs :: "fitness_row list"
  fitness_seq :: int
  sleep_logs :: "sleep_row list"
  sleep_seq :: int
  weight_logs :: "weight_row list"
  weight_seq :: int
  goals :: "goal_row list"
  goals_seq :: int

definition next_rowid :: "int \<Rightarrow> int list \<Rightarrow> int" where
  "next_rowid seq ids = fold max ids seq + 1"

section \<open>The log forms\<close>

text \<open>
  A request carries its method, the user id of the session (the handlers are behind
  \<^verbatim>\<open>login_required\<close>), and the form, a map from field names to values:
  \<^verbatim>\<open>request.form.get(k)\<close> is \<open>form k\<close>. \<^verbatim>\<open>datetime.utcnow().isoformat()\<close> is the parameter
  \<open>now\<close>. A handler returns the new store, the messages it flashed, each with its
  category, and its response; an exception that it does not catch is \<open>Inl\<close>, and then
  nothing has been written. Of a rendered page only the template is kept.
\<close>

datatype http_method = GET | POST

datatype response = Redirect string | Render string

type_synonym form = "string \<rightharpoonup> string"

type_synonym outcome = "error + (store \<times> (string \<times> string) list \<times> response)"




text \<open>
  The body of the \<^verbatim>\<open>try\<close> block of \<^verbatim>\<open>sleep\<close>: the two date-times, the end moved to the
  next day when it is before the start, and the duration in hours. Every exception of
  the block is caught by the handler.
\<close>

definition sleep_times :: "string \<Rightarrow> string \<Rightarrow> error + (datetime \<times> datetime \<times> rat)" where
  "sleep_times s e =
     (case to_dt s of
        Inl x \<Rightarrow> Inl x
      | Inr s_dt \<Rightarrow>
     (case to_dt e of
        Inl x \<Rightarrow> Inl x
      | Inr e_dt0 \<Rightarrow>
     (case (if dt_lt e_dt0 s_dt then dt_add_days e_dt0 1 else Inr e_dt0) of
        Inl x \<Rightarrow> Inl x
      | Inr e_dt \<Rightarrow>
          let duration_h = py_round2 (of_int (total_seconds e_dt s_dt) / 3600)
          in if duration_h \<le> 0 then Inl ValueError else Inr (s_dt, e_dt, duration_h))))"

definition sleep :: "http_method \<Rightarrow> int \<Rightarrow> string \<Rightarrow> form \<Rightarrow> store \<Rightarrow> outcome" where
  "sleep meth uid now f st =
     (case meth of
        POST \<Rightarrow>
          (let s = f ''sleep_start''; e = f ''sleep_end''
           in if \<not> truthy s \<or> \<not> truthy e
              then Inr (st, [(''Please provide both sleep start and end.'', ''error'')],
                        Redirect ''sleep'')
              else
                (case sleep_times (the s) (the e) of
                   Inl x \<Rightarrow> Inr (st, [(''Invalid datetime format.'', ''error'')],
                                 Redirect ''sleep'')
                 | Inr (s_dt, e_dt, duration_h) \<Rightarrow>
                     let rid = next_rowid (sleep_seq st) (map s_id (sleep_logs st));
                         row = \<lparr>s_id = rid, s_user_id = uid,
                                s_sleep_start = isoformat_sp s_dt,
                                s_sleep_end = isoformat_sp e_dt,
                                s_duration_hours = duration_h, s_created_at = now\<rparr>
                     in Inr (st\<lparr>sleep_logs := sleep_logs st @ [row], sleep_seq := rid\<rparr>,
                             [(''Sleep log added.'', ''success'')], Redirect ''sleep'')))
      | GET \<Rightarrow> Inr (st, [], Render ''sleep_log.html''))"



section \<open>The date functions of the SQL engine\<close>

text \<open>
  The queries of \<^verbatim>\<open>dashboard\<close> and \<^verbatim>\<open>aggregate_query\<close> call SQLite's \<^verbatim>\<open>DATE(x)\<close>,
  \<^verbatim>\<open>strftime(fmt, x)\<close> and \<^verbatim>\<open>DATE('now', '-6 day')\<close>. They are parameters of the model, so
  that what is proved about a query holds whatever the engine makes of a text:
  \<open>sq_DATE\<close> and \<open>sq_strftime\<close> return \<open>None\<close> for \<^verbatim>\<open>NULL\<close>, and \<open>sq_DATE_now k\<close> is
  the engine's current date shifted by \<open>k\<close> days.
\<close>

record sqlite =
  sq_DATE :: "string \<Rightarrow> string option"
  sq_strftime :: "string \<Rightarrow> string \<Rightarrow> string option"
  sq_DATE_now :: "int \<Rightarrow> string"

text \<open>
  For the examples, the engine on the time strings that the forms write when they are
  given well-formed dates: \<^verbatim>\<open>YYYY-MM-DD\<close>, alone or followed by a blank or \<^verbatim>\<open>T\<close> and
  \<^verbatim>\<open>HH:MM\<close> or \<^verbatim>\<open>HH:MM:SS\<close>, for a date that the calendar has. On every other text this
  instance returns \<^verbatim>\<open>NULL\<close>, which is what SQLite does for a text that is no time string,
  but not for the other time formats it knows (Julian day numbers, \<^verbatim>\<open>now\<close>, time zones,
  days beyond the end of a month): the examples stay clear of those. \<^verbatim>\<open>%W\<close> is the week of
  the year, 00 to 53, where week 01 starts on the first Monday. The current date of the
  engine is the parameter \<open>utc_today\<close>.
\<close>

fun two_digits :: "string \<Rightarrow> (int \<times> string) option" where
  "two_digits (a # b # r) =
     (if is_digit a \<and> is_digit b then Some (dval a * 10 + dval b, r) else None)"
| "two_digits _ = None"

definition sql_clock :: "string \<Rightarrow> bool" where
  "sql_clock s =
     (case two_digits s of
        None \<Rightarrow> False
      | Some (hh, r1) \<Rightarrow>
     (case match_lit (CHR '':'') r1 of
        None \<Rightarrow> False
      | Some r2 \<Rightarrow>
     (case two_digits r2 of
        None \<Rightarrow> False
      | Some (mm, r3) \<Rightarrow>
          hh \<le> 23 \<and> mm \<le> 59 \<and>
          (r3 = [] \<or>
           (case match_lit (CHR '':'') r3 of
              None \<Rightarrow> False
            | Some r4 \<Rightarrow>
                (case two_digits r4 of
                   None \<Rightarrow> False
                 | Some (ss, r5) \<Rightarrow> ss \<le> 59 \<and> r5 = []))))))"

definition sql_date_of :: "string \<Rightarrow> date option" where
  "sql_date_of s =
     (case match_Y s of
        None \<Rightarrow> None
      | Some (y, r1) \<Rightarrow>
     (case match_lit (CHR ''-'') r1 of
        None \<Rightarrow> None
      | Some r2 \<Rightarrow>
     (case two_digits r2 of
        None \<Rightarrow> None
      | Some (m, r3) \<Rightarrow>
     (case match_lit (CHR ''-'') r3 of
        None \<Rightarrow> None
      | Some r4 \<Rightarrow>
     (case two_digits r4 of
        None \<Rightarrow> None
      | Some (d, r5) \<Rightarrow>
          let dd = \<lparr>year = y, month = m, day = d\<rparr>
          in if valid_date dd \<and>
                (r5 = [] \<or>
                 (case r5 of
                    [] \<Rightarrow> False
                  | c # r6 \<Rightarrow> (c = CHR '' '' \<or> c = CHR ''T'') \<and> sql_clock r6))
             then Some dd else None)))))"

definition week_of_year :: "date \<Rightarrow> int" where
  "week_of_year d =
     (days_before_month (year d) (month d) + day d - 1 + 7 - weekday d) div 7"

definition sqlite_strftime :: "string \<Rightarrow> string \<Rightarrow> string option" where
  "sqlite_strftime fmt s =
     (case sql_date_of s of
        None \<Rightarrow> None
      | Some d \<Rightarrow>
          if fmt = ''%Y-%m-%d'' then Some (fmt_day d)
          else if fmt = ''%Y-%m'' then Some (pad4 (year d) @ ''-'' @ pad2 (month d))
          else if fmt = ''%Y-W%W'' then Some (pad4 (year d) @ ''-W'' @ pad2 (week_of_year d))
          else None)"

definition sqlite_at :: "date \<Rightarrow> sqlite" where
  "sqlite_at utc_today =
     \<lparr>sq_DATE = (\<lambda>s. map_option fmt_day (sql_date_of s)),
      sq_strftime = sqlite_strftime,
      sq_DATE_now = (\<lambda>k. fmt_day (fromordinal (toordinal utc_today + k)))\<rparr>"

section \<open>The dashboard\<close>

text \<open>
  What \<^verbatim>\<open>dashboard\<close> hands to its template: the totals of today, the average sleep, the
  latest BMI, the three differences to the goals, and the suggestions. \<^verbatim>\<open>date.today()\<close> is
  the parameter \<open>today\<close>, the user id of the session is \<open>uid\<close>.
\<close>

record dashboard_view =
  total_in :: int
  total_out :: int
  avg_sleep :: rat
  last_bmi :: "rat option"
  diff_weight :: "rat option"
  diff_calorie :: "int option"
  diff_exercise :: "int option"
  suggestions :: "string list"

text \<open>\<^verbatim>\<open>ensure_goals_row\<close>: a user without a goals row gets one, all targets \<^verbatim>\<open>NULL\<close>.\<close>

definition ensure_goals_row :: "int \<Rightarrow> string \<Rightarrow> store \<Rightarrow> store" where
  "ensure_goals_row user_id now st =
     (case find (\<lambda>g. g_user_id g = user_id) (goals st) of
        Some row \<Rightarrow> st
      | None \<Rightarrow>
          let rid = next_rowid (goals_seq st) (map g_id (goals st))
          in st\<lparr>goals := goals st @
                   [\<lparr>g_id = rid, g_user_id = user_id, g_target_weight_kg = None,
                     g_daily_calorie_intake_target = None,
                     g_daily_exercise_minutes_target = None, g_updated_at = now\<rparr>],
                 goals_seq := rid\<rparr>)"

text \<open>
  \<^verbatim>\<open>SELECT ... FROM weight_logs WHERE user_id=? ORDER BY date DESC, id DESC LIMIT 1\<close>: of
  the user's rows the one with the greatest date text and, among those of that date, the
  greatest id.
\<close>

definition later_weight :: "weight_row \<Rightarrow> weight_row \<Rightarrow> weight_row" where
  "later_weight x best =
     (if w_date best < w_date x \<or> (w_date best = w_date x \<and> w_id best < w_id x)
      then x else best)"

definition latest_weight :: "int \<Rightarrow> weight_row list \<Rightarrow> weight_row option" where
  "latest_weight uid rows =
     (case filter (\<lambda>r. w_user_id r = uid) rows of
        [] \<Rightarrow> None
      | r # rs \<Rightarrow> Some (fold later_weight rs r))"

text \<open>The order of that query: \<open>r\<close> is not later than \<open>w\<close>.\<close>

definition not_later :: "weight_row \<Rightarrow> weight_row \<Rightarrow> bool" where
  "not_later r w \<longleftrightarrow> w_date r < w_date w \<or> (w_date r = w_date w \<and> w_id r \<le> w_id w)"

text \<open>
  The sleep rows of the average: those of the user whose \<^verbatim>\<open>DATE(sleep_end)\<close> is not
  \<^verbatim>\<open>NULL\<close> and not before \<^verbatim>\<open>DATE('now','-6 day')\<close>, as texts.
\<close>

definition recent_sleep :: "sqlite \<Rightarrow> int \<Rightarrow> sleep_row list \<Rightarrow> sleep_row list" where
  "recent_sleep sq uid rows =
     filter (\<lambda>r. s_user_id r = uid \<and>
                 (case sq_DATE sq (s_sleep_end r) of
                    None \<Rightarrow> False
                  | Some d \<Rightarrow> sq_DATE_now sq (- 6) \<le> d)) rows"

definition en_dash :: string where
  "en_dash = [CHR 0xE2, CHR 0x80, CHR 0x93]"

definition dashboard :: "sqlite \<Rightarrow> date \<Rightarrow> string \<Rightarrow> int \<Rightarrow> store \<Rightarrow> store \<times> dashboard_view" where
  "dashboard sq today now uid st0 =
     (let start_str = fmt_day today;
          t_in = sum_list (map m_calories
                   (filter (\<lambda>r. m_user_id r = uid \<and> m_date r = start_str) (meal_logs st0)));
          today_fitness = filter (\<lambda>r. f_user_id r = uid \<and> f_date r = start_str)
                            (fitness_logs st0);
          t_out = sum_list (map f_calories_burned today_fitness);
          total_mins = sum_list (map f_duration_min today_fitness);
          nights = recent_sleep sq uid (sleep_logs st0);
          avg_h = (if nights = [] then 0
                   else sum_list (map s_duration_hours nights) / of_nat (length nights));
          avg = py_round2 avg_h;
          bmi = map_option w_bmi (latest_weight uid (weight_logs st0));
          st = ensure_goals_row uid now st0;
          gl = find (\<lambda>g. g_user_id g = uid) (goals st);
          wrow = latest_weight uid (weight_logs st);
          dw = (case gl of
                  None \<Rightarrow> None
                | Some g \<Rightarrow>
                    (case g_target_weight_kg g of
                       None \<Rightarrow> None
                     | Some target \<Rightarrow>
                         (case wrow of
                            None \<Rightarrow> None
                          | Some w \<Rightarrow> Some (py_round2 (w_weight_kg w - target)))));
          sw = (case dw of
                  None \<Rightarrow> []
                | Some x \<Rightarrow>
                    if 0 < x then
                      [''Aim for a daily calorie deficit of 300'' @ en_dash
                       @ ''500 kcal and do 30'' @ en_dash
                       @ ''45 minutes of moderate cardio today.'']
                    else if x < 0 then
                      [''Aim for a small surplus of +200'' @ en_dash
                       @ ''300 kcal and focus on strength training.'']
                    else []);
          dc = (case gl of
                  None \<Rightarrow> None
                | Some g \<Rightarrow>
                    (case g_daily_calorie_intake_target g of
                       None \<Rightarrow> None
                     | Some target \<Rightarrow> Some (target - t_in)));
          sc = (case dc of
                  None \<Rightarrow> []
                | Some x \<Rightarrow>
                    if x < 0 then
                      [''You've exceeded today's intake target; go light for dinner and add some walking.'']
                    else []);
          de = (case gl of
                  None \<Rightarrow> None
                | Some g \<Rightarrow>
                    (case g_daily_exercise_minutes_target g of
                       None \<Rightarrow> None
                     | Some target \<Rightarrow> Some (target - total_mins)));
          se = (case de of
                  None \<Rightarrow> []
                | Some x \<Rightarrow>
                    if 0 < x then
                      [''You still need '' @ show_int x
                       @ '' minutes of exercise today (e.g., brisk walk/jog/cycle).'']
                    else [])
      in (st, \<lparr>total_in = t_in, total_out = t_out, avg_sleep = avg, last_bmi = bmi,
               diff_weight = dw, diff_calorie = dc, diff_exercise = de,
               suggestions = sw @ sc @ se\<rparr>))"

section \<open>Aggregation: \<^verbatim>\<open>aggregate_query\<close>\<close>

text \<open>
  \<^verbatim>\<open>aggregate_query(uid, table, value_col, date_col, start, end, group_by)\<close> reads the table
  through three of its columns. The model takes the table as the list of these
  projections, one \<open>agg_row\<close> for each row: its \<^verbatim>\<open>user_id\<close>, the text of its \<^verbatim>\<open>date_col\<close>
  and the number in its \<^verbatim>\<open>value_col\<close> (an \<^verbatim>\<open>INTEGER\<close> column as the rational of the same
  value). The query filters by user and, when both \<^verbatim>\<open>start\<close> and \<^verbatim>\<open>end\<close> are given, by
  \<^verbatim>\<open>DATE(date_col) BETWEEN start AND end\<close> on the texts; it groups by
  \<^verbatim>\<open>strftime(fmt, date_col)\<close> and orders by that key, \<^verbatim>\<open>NULL\<close> first. The result is the list
  of the keys and the list of the sums.
\<close>

record agg_row =
  a_user_id :: int
  a_date :: string
  a_value :: rat

definition group_format :: "string \<Rightarrow> string" where
  "group_format group_by =
     (if group_by = ''month'' then ''%Y-%m''
      else if group_by = ''week'' then ''%Y-W%W''
      else ''%Y-%m-%d'')"

definition selected :: "sqlite \<Rightarrow> int \<Rightarrow> date option \<Rightarrow> date option \<Rightarrow> agg_row list \<Rightarrow> agg_row list"
where
  "selected sq uid start end rows =
     filter (\<lambda>r. a_user_id r = uid \<and>
                 (if start \<noteq> None \<and> end \<noteq> None
                  then (case sq_DATE sq (a_date r) of
                          None \<Rightarrow> False
                        | Some d \<Rightarrow> fmt_day (the start) \<le> d \<and> d \<le> fmt_day (the end))
                  else True)) rows"

definition aggregate_query ::
  "sqlite \<Rightarrow> int \<Rightarrow> agg_row list \<Rightarrow> date option \<Rightarrow> date option \<Rightarrow> string
     \<Rightarrow> string option list \<times> rat list"
where
  "aggregate_query sq uid rows start end group_by =
     (let sel = selected sq uid start end rows;
          g = (\<lambda>r. sq_strftime sq (group_format group_by) (a_date r));
          labels = sort (remdups (map g sel));
          vals = map (\<lambda>k. sum_list (map a_value (filter (\<lambda>r. g r = k) sel))) labels
      in (labels, vals))"

text \<open>The tables as \<^verbatim>\<open>api_charts\<close> hands them to \<^verbatim>\<open>aggregate_query\<close>.\<close>

definition meal_calories :: "store \<Rightarrow> agg_row list" where
  "meal_calories st =
     map (\<lambda>r. \<lparr>a_user_id = m_user_id r, a_date = m_date r, a_value = of_int (m_calories r)\<rparr>)
       (meal_logs st)"

definition sleep_hours :: "store \<Rightarrow> agg_row list" where
  "sleep_hours st =
     map (\<lambda>r. \<lparr>a_user_id = s_user_id r, a_date = s_sleep_end r, a_value = s_duration_hours r\<rparr>)
       (sleep_logs st)"


section \<open>What the forms count as missing\<close>





text \<open>
  The window of the specification for the average sleep: a row counts when the date of
  its \<^verbatim>\<open>sleep_end\<close> is today or one of the 6 days before. The average over the window is
  the mean of the durations, rounded to 2 decimals, and 0 when the window is empty.
\<close>

definition in_trailing_week :: "date \<Rightarrow> string \<Rightarrow> bool" where
  "in_trailing_week today sleep_end =
     (case sql_date_of sleep_end of
        None \<Rightarrow> False
      | Some d \<Rightarrow> toordinal today - 6 \<le> toordinal d \<and> toordinal d \<le> toordinal today)"

definition trailing_week_average :: "date \<Rightarrow> int \<Rightarrow> sleep_row list \<Rightarrow> rat" where
  "trailing_week_average today uid rows =
     (let nights = filter (\<lambda>r. s_user_id r = uid \<and> in_trailing_week today (s_sleep_end r)) rows
      in if nights = [] then 0
         else py_round2 (sum_list (map s_duration_hours nights) / of_nat (length nights)))"


section \<open>Example data\<close>

text \<open>An empty store, a day, and two meals of user 7 as \<^verbatim>\<open>aggregate_query\<close> sees them.\<close>

definition empty_store :: store where
  "empty_store =
     \<lparr>meal_logs = [], meal_seq = 0, fitness_logs = [], fitness_seq = 0,
      sleep_logs = [], sleep_seq = 0, weight_logs = [], weight_seq = 0,
      goals = [], goals_seq = 0\<rparr>"

definition jan10 :: date where
  "jan10 = \<lparr>year = 2024, month = 1, day = 10\<rparr>"

definition two_meals :: "agg_row list" where
  "two_meals = [\<lparr>a_user_id = 7, a_date = ''2024-01-01'', a_value = 100\<rparr>,
                \<lparr>a_user_id = 7, a_date = ''2024-01-03'', a_value = 50\<rparr>]"


definition night_23_to_7 :: form where
  "night_23_to_7 =
     [''sleep_start'' \<mapsto> ''2024-01-10T23:00'', ''sleep_end'' \<mapsto> ''2024-01-10T07:00'']"









text \<open>The store after user 7 has logged the night from 23:00 to 7:00 on 10 January.\<close>

definition night_logged :: store where
  "night_logged =
     empty_store
       \<lparr>sleep_logs := [\<lparr>s_id = 1, s_user_id = 7, s_sleep_start = ''2024-01-10 23:00:00'',
                        s_sleep_end = ''2024-01-11 07:00:00'', s_duration_hours = 8,
                        s_created_at = ''2024-01-10T09:30:00''\<rparr>],
        sleep_seq := 1\<rparr>"


text \<open>
  User 7 on 10 January: a goal of 65 kg, 2000 kcal and 30 minutes, meals of 1500 and 800
  kcal today, a walk of 20 minutes, and a latest weight of 70.123 kg.
\<close>

definition over_target :: store where
  "over_target =
     empty_store
       \<lparr>meal_logs :=
          [\<lparr>m_id = 1, m_user_id = 7, m_date = ''2024-01-10'', m_meal_type = ''Lunch'',
            m_food = ''pasta'', m_calories = 1500, m_created_at = ''2024-01-10T12:00:00''\<rparr>,
           \<lparr>m_id = 2, m_user_id = 7, m_date = ''2024-01-10'', m_meal_type = ''Dinner'',
            m_food = ''pizza'', m_calories = 800, m_created_at = ''2024-01-10T19:00:00''\<rparr>,
           \<lparr>m_id = 3, m_user_id = 8, m_date = ''2024-01-10'', m_meal_type = ''Dinner'',
            m_food = ''soup'', m_calories = 400, m_created_at = ''2024-01-10T19:30:00''\<rparr>],
        meal_seq := 3,
        fitness_logs :=
          [\<lparr>f_id = 1, f_user_id = 7, f_date = ''2024-01-10'', f_activity_type = ''walk'',
            f_duration_min = 20, f_calories_burned = 90,
            f_created_at = ''2024-01-10T18:00:00''\<rparr>],
        fitness_seq := 1,
        weight_logs :=
          [\<lparr>w_id = 1, w_user_id = 7, w_date = ''2024-01-02'', w_weight_kg = 71,
            w_height_cm = 175, w_bmi = 2318 / 100, w_created_at = ''2024-01-02T07:00:00''\<rparr>,
           \<lparr>w_id = 2, w_user_id = 7, w_date = ''2024-01-09'', w_weight_kg = 70123 / 1000,
            w_height_cm = 175, w_bmi = 229 / 10, w_created_at = ''2024-01-09T07:00:00''\<rparr>],
        weight_seq := 2,
        goals :=
          [\<lparr>g_id = 1, g_user_id = 7, g_target_weight_kg = Some 65,
            g_daily_calorie_intake_target = Some 2000,
            g_daily_exercise_minutes_target = Some 30,
            g_updated_at = ''2024-01-01T00:00:00''\<rparr>],
        goals_seq := 1\<rparr>"



section \<open>Calendar lemmas\<close>

































lemma date_lt_asym: "date_lt a b \<Longrightarrow> \<not> date_lt b a"
  unfolding date_lt_def by auto



section \<open>Properties of the resolver\<close>

text \<open>
  Claim C10. When the range key is \<^verbatim>\<open>"custom"\<close> and \<^verbatim>\<open>start_str\<close> or \<^verbatim>\<open>end_str\<close> is missing
  (\<^verbatim>\<open>None\<close>) or the empty string, the resolver does not raise: it returns
  \<^verbatim>\<open>(None, None)\<close>, which is also what it returns for the range key \<^verbatim>\<open>"all"\<close>.
\<close>

theorem custom_missing_is_unbounded:
  "(start_str = None \<or> start_str = Some [] \<or> end_str = None \<or> end_str = Some [])
   \<longrightarrow> start_end_from_range today ''custom'' start_str end_str = Inr (None, None)
       \<and> start_end_from_range today ''custom'' start_str end_str
           = start_end_from_range today ''all'' s' e'"
  by (auto simp: start_end_from_range_def truthy_def)

theorem custom_missing_is_unbounded_witness:
  "(Some ''2024-01-01'' = None \<or> Some ''2024-01-01'' = Some [] \<or> (None :: string option) = None
      \<or> None = Some [])
   \<and> start_end_from_range \<lparr>year = 2024, month = 5, day = 17\<rparr> ''custom''
        (Some ''2024-01-01'') None = Inr (None, None)
   \<and> start_end_from_range \<lparr>year = 2024, month = 5, day = 17\<rparr> ''custom''
        (Some ''2024-01-01'') None
       = start_end_from_range \<lparr>year = 2024, month = 5, day = 17\<rparr> ''all'' None None"
  using custom_missing_is_unbounded
    [of "Some ''2024-01-01''" None "\<lparr>year = 2024, month = 5, day = 17\<rparr>" None None]
  by auto












section \<open>Custom ranges\<close>


lemma parse_date_valid: "parse_date s = Inr d \<Longrightarrow> valid_date d"
  unfolding parse_date_def mk_date_def Let_def
  by (auto split: option.splits prod.splits if_splits)


lemma parse_date_iso: "parse_date ''2024-01-31'' = Inr \<lparr>year = 2024, month = 1, day = 31\<rparr>"
  by (simp add: parse_date_def match_ymd_def in_range_def digit_of_def dval_def mk_date_def
      valid_date_def MINYEAR_def MAXYEAR_def days_in_month_def DAYS_IN_MONTH_def)

text \<open>A day that the month does not have is rejected.\<close>

lemma parse_date_feb30: "parse_date ''2023-02-30'' = Inl ValueError"
  by (simp add: parse_date_def match_ymd_def in_range_def digit_of_def dval_def mk_date_def
      valid_date_def MINYEAR_def MAXYEAR_def days_in_month_def DAYS_IN_MONTH_def is_leap_def)

text \<open>
  \<^verbatim>\<open>strptime\<close> is more lenient than the ISO format: a month or a day of one digit is
  accepted.
\<close>

lemma parse_date_unpadded: "parse_date ''2024-1-5'' = Inr \<lparr>year = 2024, month = 1, day = 5\<rparr>"
  by (simp add: parse_date_def match_ymd_def in_range_def digit_of_def dval_def mk_date_def
      valid_date_def MINYEAR_def MAXYEAR_def days_in_month_def DAYS_IN_MONTH_def)


lemma digit_of_digit_char_all: "\<forall>n \<in> set [0..9]. digit_of (digit_char n) = Some n"
  by (simp add: upto_rec1 digit_of_def digit_char_def)

lemma digit_of_digit_char:
  assumes "0 \<le> n" "n \<le> 9"
  shows "digit_of (digit_char n) = Some n"
  using digit_of_digit_char_all assms by simp

lemma in_range_digit_char:
  assumes "0 \<le> n" "n \<le> 9"
  shows "in_range (digit_char n) lo hi \<longleftrightarrow> lo \<le> n \<and> n \<le> hi"
  unfolding in_range_def digit_of_digit_char[OF assms] by simp

lemma dval_digit_char:
  assumes "0 \<le> n" "n \<le> 9"
  shows "dval (digit_char n) = n"
  unfolding dval_def digit_of_digit_char[OF assms] by simp

lemma digits4:
  fixes y :: int
  assumes "0 \<le> y" "y \<le> 9999"
  shows "(y div 1000 mod 10) * 1000 + (y div 100 mod 10) * 100 + (y div 10 mod 10) * 10 + y mod 10 = y"
proof -
  define t where "t = y div 10"
  define h where "h = t div 10"
  define k where "k = h div 10"
  have b: "y div 100 = h" unfolding h_def t_def by (simp add: zdiv_zmult2_eq)
  have c: "y div 1000 = k" unfolding k_def h_def t_def by (simp add: zdiv_zmult2_eq)
  have "0 \<le> k" "k \<le> 9" using c assms by simp_all
  then have km: "k mod 10 = k" by simp
  have 1: "y = t * 10 + y mod 10" unfolding t_def by simp
  have 2: "t = h * 10 + t mod 10" unfolding h_def by simp
  have 3: "h = k * 10 + h mod 10" unfolding k_def by simp
  show ?thesis
    unfolding b c km t_def[symmetric] using 1 2 3 by linarith
qed

lemma match_Y_pad4:
  assumes "0 \<le> y" "y \<le> 9999"
  shows "match_Y (pad4 y @ r) = Some (y, r)"
proof -
  define a where "a = y div 1000 mod 10"
  define b where "b = y div 100 mod 10"
  define c where "c = y div 10 mod 10"
  define d where "d = y mod 10"
  have r: "0 \<le> a" "a \<le> 9" "0 \<le> b" "b \<le> 9" "0 \<le> c" "c \<le> 9" "0 \<le> d" "d \<le> 9"
    unfolding a_def b_def c_def d_def by simp_all
  have y: "a * 1000 + b * 100 + c * 10 + d = y"
    unfolding a_def b_def c_def d_def using digits4[OF assms] .
  have p: "pad4 y = [digit_char a, digit_char b, digit_char c, digit_char d]"
    unfolding pad4_def a_def b_def c_def d_def ..
  show ?thesis
    unfolding p using r y by (simp add: in_range_digit_char dval_digit_char)
qed

lemma match_m_pad2: "\<forall>m \<in> set [1..12]. match_m (pad2 m @ CHR ''-'' # r) = Some (m, CHR ''-'' # r)"
  by (simp add: upto_rec1 pad2_def digit_char_def in_range_def digit_of_def dval_def)

lemma match_d_pad2: "\<forall>d \<in> set [1..31]. match_d (pad2 d) = Some (d, [])"
  by (simp add: upto_rec1 pad2_def digit_char_def in_range_def digit_of_def dval_def)

text \<open>
  Every date written in the ISO form \<^verbatim>\<open>YYYY-MM-DD\<close>, as \<^verbatim>\<open>fmt_day\<close> writes it, is accepted
  and parsed back to itself.
\<close>

lemma parse_date_fmt_day:
  assumes "valid_date d"
  shows "parse_date (fmt_day d) = Inr d"
proof -
  from assms have b: "1 \<le> year d" "year d \<le> 9999" "1 \<le> month d" "month d \<le> 12"
    "1 \<le> day d" "day d \<le> days_in_month (year d) (month d)"
    unfolding valid_date_def MINYEAR_def MAXYEAR_def by simp_all
  have "days_in_month (year d) (month d) \<le> 31"
    unfolding days_in_month_def DAYS_IN_MONTH_def by simp
  with b have d31: "day d \<le> 31" by simp
  have m: "match_m (pad2 (month d) @ CHR ''-'' # pad2 (day d))
           = Some (month d, CHR ''-'' # pad2 (day d))"
    using match_m_pad2 b(3,4) by simp
  have dd: "match_d (pad2 (day d)) = Some (day d, [])" using match_d_pad2 b(5) d31 by simp
  have y: "match_Y (pad4 (year d) @ CHR ''-'' # pad2 (month d) @ CHR ''-'' # pad2 (day d))
           = Some (year d, CHR ''-'' # pad2 (month d) @ CHR ''-'' # pad2 (day d))"
    using match_Y_pad4[of "year d"] b by simp
  have "match_ymd (fmt_day d) = Some ((year d, month d, day d), [])"
    unfolding match_ymd_def fmt_day_def using y m dd by simp
  then have "parse_date (fmt_day d) = mk_date (year d) (month d) (day d)"
    unfolding parse_date_def by simp
  also have "\<dots> = Inr \<lparr>year = year d, month = month d, day = day d\<rparr>"
    unfolding mk_date_def Let_def using assms by (simp add: valid_date_def)
  also have "\<lparr>year = year d, month = month d, day = day d\<rparr> = d" by simp
  finally show ?thesis .
qed





section \<open>Aggregation\<close>





lemma aggregate_unfiltered_example:
  "aggregate_query (sqlite_at jan10) 7 two_meals None None ''day''
     = ([Some ''2024-01-01'', Some ''2024-01-03''], [100, 50])"
  by code_simp


section \<open>Rounding\<close>

lemma round_half_even_cases:
  "round_half_even q = \<lfloor>q\<rfloor> \<or> round_half_even q = \<lfloor>q\<rfloor> + 1"
  unfolding round_half_even_def Let_def by simp

lemma round_half_even_near: "\<bar>of_int (round_half_even q) - q\<bar> \<le> 1 / 2"
proof -
  have f: "of_int \<lfloor>q\<rfloor> \<le> q" "q < of_int \<lfloor>q\<rfloor> + 1" by linarith+
  show ?thesis
    unfolding round_half_even_def Let_def using f by (auto simp: abs_le_iff)
qed

lemma round_half_even_nonpos: "q \<le> 0 \<Longrightarrow> round_half_even q \<le> 0"
proof -
  assume q: "q \<le> 0"
  have n: "of_int (round_half_even q) - q \<le> 1 / 2" using round_half_even_near[of q] by linarith
  then have "(of_int (round_half_even q) :: rat) \<le> 1 / 2" using q by linarith
  then have "(of_int (round_half_even q) :: rat) < 1" by linarith
  then have "round_half_even q < 1" by (simp only: of_int_less_1_iff)
  then show ?thesis by simp
qed

lemma round_half_even_pos: "1 \<le> q \<Longrightarrow> 1 \<le> round_half_even q"
proof -
  assume q: "1 \<le> q"
  then have "1 \<le> \<lfloor>q\<rfloor>" by (simp add: le_floor_iff)
  with round_half_even_cases[of q] show ?thesis by auto
qed



lemma py_round2_nonpos: "x \<le> 0 \<Longrightarrow> py_round2 x \<le> 0"
  unfolding py_round2_def using round_half_even_nonpos[of "x * 100"]
  by (simp add: mult_le_0_iff divide_le_0_iff)

lemma py_round2_pos: "1 / 100 \<le> x \<Longrightarrow> 0 < py_round2 x"
proof -
  assume "1 / 100 \<le> x"
  then have "1 \<le> x * 100" by simp
  from round_half_even_pos[OF this] have "(0::rat) < of_int (round_half_even (x * 100))" by simp
  then show ?thesis unfolding py_round2_def by simp
qed

section \<open>The weight form\<close>



section \<open>The sleep form\<close>

lemma total_seconds_minutes:
  "total_seconds e s = 60 * ((toordinal (dt_date e) - toordinal (dt_date s)) * 1440
                             + (dt_hour e * 60 + dt_minute e) - (dt_hour s * 60 + dt_minute s))"
  unfolding total_seconds_def by (simp add: algebra_simps)

text \<open>
  The difference of two such date-times is a whole number of minutes, and a duration of at
  least one minute rounds to at least 0.02 hours: the rounding never turns a positive
  duration into a rejected one.
\<close>

lemma positive_seconds_positive_hours:
  assumes "0 < total_seconds e s"
  shows "0 < py_round2 (of_int (total_seconds e s) / 3600)"
proof -
  obtain k where k: "total_seconds e s = 60 * k" using total_seconds_minutes by blast
  with assms have "1 \<le> k" by simp
  then have "(60::rat) \<le> of_int (total_seconds e s)" unfolding k by simp
  then have "(1::rat) / 100 \<le> of_int (total_seconds e s) / 3600" by simp
  then show ?thesis by (rule py_round2_pos)
qed



lemma night_23_to_7_accepted:
  "sleep POST 7 ''2024-01-10T09:30:00'' night_23_to_7 empty_store
     = Inr (night_logged, [(''Sleep log added.'', ''success'')], Redirect ''sleep'')"
  by code_simp


section \<open>Rejected input\<close>











section \<open>The dashboard\<close>



lemma not_later_refl: "not_later w w"
  unfolding not_later_def by simp

lemma not_later_trans: "not_later a b \<Longrightarrow> not_later b c \<Longrightarrow> not_later a c"
  unfolding not_later_def by auto

lemma later_weight_cases: "later_weight x best = x \<or> later_weight x best = best"
  unfolding later_weight_def by simp

lemma later_weight_upper: "not_later x (later_weight x best)" "not_later best (later_weight x best)"
  unfolding later_weight_def not_later_def by auto

lemma fold_later_weight:
  "fold later_weight rs r \<in> set (r # rs)
   \<and> (\<forall>x \<in> set (r # rs). not_later x (fold later_weight rs r))"
proof (induction rs arbitrary: r)
  case Nil
  then show ?case by (simp add: not_later_refl)
next
  case (Cons a rs)
  define b where "b = later_weight a r"
  define w where "w = fold later_weight rs b"
  from Cons[of b] have m: "w \<in> set (b # rs)"
    and u: "\<forall>x \<in> set (b # rs). not_later x w" unfolding w_def by simp_all
  have fw: "fold later_weight (a # rs) r = w" unfolding w_def b_def by simp
  from u have ub: "not_later b w" by simp
  have ua: "not_later a w" using later_weight_upper(1)[where x = a and best = r] ub not_later_trans
    unfolding b_def by blast
  have ur: "not_later r w" using later_weight_upper(2)[where x = a and best = r] ub not_later_trans
    unfolding b_def by blast
  have "b = a \<or> b = r" unfolding b_def by (rule later_weight_cases)
  with m have mem: "w \<in> set (r # a # rs)" by auto
  from u have "\<forall>x \<in> set rs. not_later x w" by simp
  with ua ur have "\<forall>x \<in> set (r # a # rs). not_later x w" by simp
  with mem show ?case unfolding fw by simp
qed

lemma latest_weight_is_latest:
  assumes "latest_weight uid rows = Some w"
  shows "w \<in> set rows" and "w_user_id w = uid"
    and "\<forall>r \<in> set rows. w_user_id r = uid \<longrightarrow> not_later r w"
proof -
  from assms obtain r rs where f: "filter (\<lambda>r. w_user_id r = uid) rows = r # rs"
    and w: "w = fold later_weight rs r"
    unfolding latest_weight_def by (auto split: list.splits)
  from fold_later_weight[of rs r] w have m: "w \<in> set (r # rs)"
    and u: "\<forall>x \<in> set (r # rs). not_later x w" by simp_all
  from m f have "w \<in> set (filter (\<lambda>r. w_user_id r = uid) rows)" by simp
  then show "w \<in> set rows" "w_user_id w = uid" by simp_all
  show "\<forall>r \<in> set rows. w_user_id r = uid \<longrightarrow> not_later r w"
  proof (intro ballI impI)
    fix x assume "x \<in> set rows" "w_user_id x = uid"
    then have "x \<in> set (filter (\<lambda>r. w_user_id r = uid) rows)" by simp
    then have "x \<in> set (r # rs)" unfolding f .
    with u show "not_later x w" by blast
  qed
qed

lemma latest_weight_none: "latest_weight uid rows = None \<longleftrightarrow> (\<forall>r \<in> set rows. w_user_id r \<noteq> uid)"
proof -
  have "latest_weight uid rows = None \<longleftrightarrow> filter (\<lambda>r. w_user_id r = uid) rows = []"
    unfolding latest_weight_def by (simp split: list.splits)
  then show ?thesis by (simp add: filter_empty_conv)
qed







lemma no_weight_no_delta:
  "diff_weight (snd (dashboard (sqlite_at jan10) jan10 ''2024-01-10T20:00:00'' 7
                      (over_target\<lparr>weight_logs := []\<rparr>))) = None"
  by code_simp


section \<open>The average sleep\<close>

text \<open>
  Claim C7 says that the average sleep is taken over exactly the nights whose
  \<^verbatim>\<open>sleep_end\<close> date is today or one of the 6 days before. The query of \<^verbatim>\<open>dashboard\<close>,
  commented \<^verbatim>\<open>avg sleep last 7 days\<close>, has the lower bound only. A night logged through the
  sleep form on 10 January from 23:00 to 7:00 is stored with the end
  \<^verbatim>\<open>2024-01-11 07:00:00\<close>, after today; on 10 January the dashboard averages over it and
  shows 8, where the window of the claim is empty and gives 0.
\<close>

theorem avg_sleep_counts_night_after_today:
  "sleep POST 7 ''2024-01-10T09:30:00'' night_23_to_7 empty_store
     = Inr (night_logged, [(''Sleep log added.'', ''success'')], Redirect ''sleep'')
   \<and> map s_sleep_end (sleep_logs night_logged) = [''2024-01-11 07:00:00'']
   \<and> avg_sleep (snd (dashboard (sqlite_at jan10) jan10 ''2024-01-10T20:00:00'' 7 night_logged)) = 8
   \<and> trailing_week_average jan10 7 (sleep_logs night_logged) = 0"
  by code_simp

theorem avg_sleep_counts_night_after_today_witness:
  "avg_sleep (snd (dashboard (sqlite_at jan10) jan10 ''2024-01-10T20:00:00'' 7 night_logged)) = 8
   \<and> trailing_week_average jan10 7 (sleep_logs night_logged) = 0"
  using avg_sleep_counts_night_after_today by simp


end
